theory Spec2Isabelle
  imports Main
begin

section \<open>The villa content store and its admin routes\<close>

text \<open>
  The admin router keeps one Villa document. Every handler reads it with
  \<^verbatim>\<open>Villa.findOne()\<close>, changes the document it got in memory and writes it back with
  \<^verbatim>\<open>villa.save()\<close>. The persisted collection is modelled as a \<open>villa option\<close>
  (\<open>None\<close>: no document yet); a handler is a function from the store and the request to
  the response and the store afterwards. A handler that returns before \<^verbatim>\<open>save()\<close>
  hands back the store it was given.

  Conventions of the embedding:
  \<^item> a JSON field that may be missing is an \<open>option\<close> (\<open>None\<close> is \<^verbatim>\<open>undefined\<close>);
  \<^item> numbers of the request body are integers;
  \<^item> strings are byte lists (UTF-8), and a string is truthy when it is present and not empty;
  \<^item> the Mongoose schema of Villa is not part of the sources read here: the document made
    by \<^verbatim>\<open>new Villa()\<close> is the parameter \<open>nv\<close> of the handlers, and \<^verbatim>\<open>findOne\<close> and
    \<^verbatim>\<open>save\<close> are taken to succeed, so the \<^verbatim>\<open>catch\<close> branches (HTTP 500) are reached
    only where the handler itself throws (\<^verbatim>\<open>JSON.parse\<close>);
  \<^item> the bilingual fields of a document are objects in every document (their \<^verbatim>\<open>en\<close> and
    \<^verbatim>\<open>th\<close> may be missing), and \<^verbatim>\<open>slideImages\<close> and \<^verbatim>\<open>rooms\<close> are arrays;
  \<^item> files on disk are not part of the state.
\<close>

subsection \<open>Data\<close>

record bilingual =
  en :: "string option"
  th :: "string option"

record bank_entry =
  bank :: "string option"
  accountNumber :: "string option"
  accountName :: "string option"

text \<open>The value of a \<^verbatim>\<open>bankDetails\<close> field: an array of entries, or anything else.\<close>

datatype bank_json = NotAnArray | BankArray "bank_entry list"

record prompt_pay =
  qrImage :: "string option"

record room =
  room_name :: bilingual
  room_description :: bilingual
  images :: "string list"

record villa =
  name :: bilingual
  title :: bilingual
  description :: bilingual
  beachfront :: bilingual
  pricePerNight :: "int option"
  discountedPrice :: "int option"
  priceReductionPerRoom :: "int option"
  maxGuests :: "int option"
  bedrooms :: "int option"
  bathrooms :: "int option"
  minRooms :: "int option"
  backgroundImage :: "string option"
  slideImages :: "string option list"
  rooms :: "room list"
  bankDetails :: bank_json
  promptPay :: "prompt_pay option"

text \<open>What \<^verbatim>\<open>res.json(...)\<close> sends. \<open>JErr\<close> is the body of a \<^verbatim>\<open>catch\<close> branch.\<close>

datatype json_body =
    JMsg string
  | JVilla villa
  | JBank string bank_json
  | JMsgVilla string villa
  | JMsgUrl string string
  | JMsgUrls string "string option list"
  | JErr string

datatype response = Resp (resp_status: nat) (resp_body: json_body)

subsection \<open>JavaScript helpers\<close>

text \<open>Truthiness of a string-valued property: present and not the empty string.\<close>

fun truthy :: "string option \<Rightarrow> bool" where
  "truthy None = False"
| "truthy (Some s) = (s \<noteq> [])"

text \<open>\<^verbatim>\<open>a || b\<close> on string-valued properties.\<close>

definition or_js :: "string option \<Rightarrow> string option \<Rightarrow> string option" where
  "or_js a b = (if truthy a then a else b)"

text \<open>
  \<^verbatim>\<open>a >= b\<close> and \<^verbatim>\<open>a > b\<close> where \<open>a\<close> is a number and \<open>b\<close> may be
  \<^verbatim>\<open>undefined\<close>: \<^verbatim>\<open>undefined\<close> converts to NaN and every comparison with NaN is false.
\<close>

fun ge_js :: "int \<Rightarrow> int option \<Rightarrow> bool" where
  "ge_js a None = False"
| "ge_js a (Some b) = (b \<le> a)"

fun gt_js :: "int \<Rightarrow> int option \<Rightarrow> bool" where
  "gt_js a None = False"
| "gt_js a (Some b) = (b < a)"

text \<open>\<^verbatim>\<open>xs[i]\<close> for an array index \<open>i\<close>: \<^verbatim>\<open>undefined\<close> out of range.\<close>

definition at_js :: "'a list \<Rightarrow> nat \<Rightarrow> 'a option" where
  "at_js xs i = (if i < length xs then Some (xs ! i) else None)"

text \<open>The same for an array whose entries may themselves be \<^verbatim>\<open>undefined\<close>.\<close>

definition slide_at :: "string option list \<Rightarrow> nat \<Rightarrow> string option" where
  "slide_at xs i = (if i < length xs then xs ! i else None)"

text \<open>\<^verbatim>\<open>xs[i]\<close> for a number \<open>i\<close> of the request body, which may be negative.\<close>

definition slide_at_int :: "string option list \<Rightarrow> int \<Rightarrow> string option" where
  "slide_at_int xs i = (if 0 \<le> i then slide_at xs (nat i) else None)"

text \<open>\<^verbatim>\<open>xs.splice(i, 1)\<close>: removes the element at \<open>i\<close>, nothing when \<open>i\<close> is out of range.\<close>

definition splice1 :: "'a list \<Rightarrow> nat \<Rightarrow> 'a list" where
  "splice1 xs i = take i xs @ drop (Suc i) xs"

text \<open>
  \<^verbatim>\<open>s.trim()\<close> and \<^verbatim>\<open>s.replace(/\s+/g, '-')\<close>, on the ASCII white space characters.
\<close>

definition is_space :: "char \<Rightarrow> bool" where
  "is_space c = (c = CHR '' '' \<or> c = CHR 0x09 \<or> c = CHR 0x0A \<or> c = CHR 0x0B
                 \<or> c = CHR 0x0C \<or> c = CHR 0x0D)"

definition trim :: "string \<Rightarrow> string" where
  "trim s = rev (dropWhile is_space (rev (dropWhile is_space s)))"

text \<open>
  The flag of \<open>replace_from\<close> says that the character before was white space, so that a
  run of white space gives one dash.
\<close>

fun replace_from :: "bool \<Rightarrow> string \<Rightarrow> string" where
  "replace_from in_run [] = []"
| "replace_from in_run (c # cs) =
     (if is_space c then (if in_run then replace_from True cs else CHR ''-'' # replace_from True cs)
      else c # replace_from False cs)"

definition replace_spaces :: "string \<Rightarrow> string" where
  "replace_spaces s = replace_from False s"

subsection \<open>GET /: the villa, created with defaults when there is none\<close>

text \<open>The Thai default texts, as the bytes of their UTF-8 encoding.\<close>

definition name_th :: string where
  "name_th = map char_of
    [224, 184, 167, 224, 184, 180, 224, 184, 165, 224, 184, 165, 224, 185, 136, 224, 184,
     178, 32, 224, 184, 158, 224, 184, 178, 224, 184, 163, 224, 184, 178, 224, 185, 132,
     224, 184, 148, 224, 184, 139, 224, 185, 140 :: nat]"

definition title_th :: string where
  "title_th = map char_of
    [224, 184, 170, 224, 184, 177, 224, 184, 161, 224, 184, 156, 224, 184, 177, 224, 184,
     170, 224, 184, 155, 224, 184, 163, 224, 184, 176, 224, 184, 170, 224, 184, 154, 224,
     184, 129, 224, 184, 178, 224, 184, 163, 224, 184, 147, 224, 185, 140, 224, 184, 132,
     224, 184, 167, 224, 184, 178, 224, 184, 161, 224, 184, 171, 224, 184, 163, 224, 184,
     185, 224, 184, 171, 224, 184, 163, 224, 184, 178, 224, 184, 151, 224, 184, 181, 224,
     185, 136, 224, 185, 132, 224, 184, 161, 224, 185, 136, 224, 185, 128, 224, 184, 132,
     224, 184, 162, 224, 184, 161, 224, 184, 181, 224, 184, 161, 224, 184, 178, 224, 184,
     129, 224, 185, 136, 224, 184, 173, 224, 184, 153 :: nat]"

definition description_th :: string where
  "description_th = map char_of
    [224, 184, 167, 224, 184, 180, 224, 184, 165, 224, 184, 165, 224, 185, 136, 224, 184,
     178, 224, 184, 171, 224, 184, 163, 224, 184, 185, 224, 184, 158, 224, 184, 163, 224,
     185, 137, 224, 184, 173, 224, 184, 161, 224, 184, 170, 224, 184, 180, 224, 185, 136,
     224, 184, 135, 224, 184, 173, 224, 184, 179, 224, 184, 153, 224, 184, 167, 224, 184,
     162, 224, 184, 132, 224, 184, 167, 224, 184, 178, 224, 184, 161, 224, 184, 170, 224,
     184, 176, 224, 184, 148, 224, 184, 167, 224, 184, 129, 224, 184, 151, 224, 184, 177,
     224, 184, 153, 224, 184, 170, 224, 184, 161, 224, 184, 177, 224, 184, 162 :: nat]"

definition beachfront_th :: string where
  "beachfront_th = map char_of
    [224, 185, 128, 224, 184, 130, 224, 185, 137, 224, 184, 178, 224, 184, 150, 224, 184,
     182, 224, 184, 135, 224, 184, 138, 224, 184, 178, 224, 184, 162, 224, 184, 171, 224,
     184, 178, 224, 184, 148, 224, 185, 132, 224, 184, 148, 224, 185, 137, 224, 185, 130,
     224, 184, 148, 224, 184, 162, 224, 184, 149, 224, 184, 163, 224, 184, 135 :: nat]"

text \<open>
  \<^verbatim>\<open>Villa.create({...})\<close>: the fields given in the handler on top of what the schema
  gives a new document.
\<close>

definition defaultVilla :: "villa \<Rightarrow> villa" where
  "defaultVilla nv = nv
     \<lparr> name := \<lparr> en = Some ''Villa Paradise'', th = Some name_th \<rparr>,
       title := \<lparr> en = Some ''Experience Luxury Like Never Before'', th = Some title_th \<rparr>,
       description := \<lparr> en = Some ''A luxurious villa with modern amenities'',
                        th = Some description_th \<rparr>,
       beachfront := \<lparr> en = Some ''Direct access to the beach'', th = Some beachfront_th \<rparr>,
       pricePerNight := Some 299,
       maxGuests := Some 6,
       bedrooms := Some 3,
       bathrooms := Some 3 \<rparr>"

definition getVilla :: "villa \<Rightarrow> villa option \<Rightarrow> response \<times> villa option" where
  "getVilla nv store =
     (case store of
        None \<Rightarrow> (let villa = defaultVilla nv in (Resp 200 (JVilla villa), Some villa))
      | Some villa \<Rightarrow> (Resp 200 (JVilla villa), store))"

text \<open>\<^verbatim>\<open>let villa = await Villa.findOne(); if (!villa) villa = new Villa();\<close>\<close>

definition findOrNew :: "villa \<Rightarrow> villa option \<Rightarrow> villa" where
  "findOrNew nv store = (case store of None \<Rightarrow> nv | Some villa \<Rightarrow> villa)"

subsection \<open>PATCH /bank-details\<close>

text \<open>The test of the validation loop, negated: the entry has all three fields.\<close>

definition entry_ok :: "bank_entry \<Rightarrow> bool" where
  "entry_ok e = (truthy (bank e) \<and> truthy (accountNumber e) \<and> truthy (accountName e))"

definition formatEntry :: "bank_entry \<Rightarrow> bank_entry" where
  "formatEntry e =
     \<lparr> bank = map_option trim (bank e),
       accountNumber = map_option (\<lambda>s. replace_spaces (trim s)) (accountNumber e),
       accountName = map_option trim (accountName e) \<rparr>"

definition patchBankDetails :: "villa \<Rightarrow> villa option \<Rightarrow> bank_json \<Rightarrow> response \<times> villa option" where
  "patchBankDetails nv store body =
     (case body of
        NotAnArray \<Rightarrow> (Resp 400 (JMsg ''Bank details must be an array''), store)
      | BankArray es \<Rightarrow>
          if \<not> list_all entry_ok es
          then (Resp 400 (JMsg
            ''Each bank detail must include bank name, account number, and account name''), store)
          else
            (let villa = (findOrNew nv store) \<lparr> bankDetails := BankArray (map formatEntry es) \<rparr>
             in (Resp 200 (JBank ''Bank details updated successfully'' (bankDetails villa)),
                 Some villa)))"

subsection \<open>PATCH /: the villa details\<close>

record villa_patch =
  req_name :: "bilingual option"
  req_title :: "bilingual option"
  req_description :: "bilingual option"
  req_beachfront :: "bilingual option"
  req_maxGuests :: "int option"
  req_bedrooms :: "int option"
  req_minRooms :: "int option"
  req_bathrooms :: "int option"
  req_pricePerNight :: "int option"
  req_discountedPrice :: "int option"
  req_priceReductionPerRoom :: "int option"
  req_bankDetails :: "bank_json option"
  req_promptPay :: "prompt_pay option"

text \<open>\<^verbatim>\<open>x?.en && x?.th\<close>\<close>

fun both_given :: "bilingual option \<Rightarrow> bool" where
  "both_given None = False"
| "both_given (Some x) = (truthy (en x) \<and> truthy (th x))"

definition updateTexts :: "villa_patch \<Rightarrow> villa \<Rightarrow> villa" where
  "updateTexts req villa =
     (case (req_name req, req_title req, req_description req) of
        (Some n, Some t, Some d) \<Rightarrow>
          if both_given (Some n) \<and> both_given (Some t) \<and> both_given (Some d)
          then villa \<lparr> name := n, title := t, description := d \<rparr>
          else villa
      | _ \<Rightarrow> villa)"

definition updateBeachfront :: "villa_patch \<Rightarrow> villa \<Rightarrow> villa" where
  "updateBeachfront req villa =
     (case req_beachfront req of
        None \<Rightarrow> villa
      | Some b \<Rightarrow> villa \<lparr> beachfront :=
          \<lparr> en = or_js (en b) (en (beachfront villa)),
            th = or_js (th b) (th (beachfront villa)) \<rparr> \<rparr>)"

definition updatePricePerNight :: "villa_patch \<Rightarrow> villa \<Rightarrow> villa" where
  "updatePricePerNight req villa =
     (case req_pricePerNight req of
        None \<Rightarrow> villa
      | Some p \<Rightarrow> villa \<lparr> pricePerNight := Some p \<rparr>)"

text \<open>
  The two validations. Each compares with a field of the request body
  (\<^verbatim>\<open>pricePerNight\<close>, \<^verbatim>\<open>bedrooms\<close> as destructured from \<^verbatim>\<open>req.body\<close>), not with the
  stored villa.
\<close>

definition updateDiscountedPrice :: "villa_patch \<Rightarrow> villa \<Rightarrow> response + villa" where
  "updateDiscountedPrice req villa =
     (case req_discountedPrice req of
        None \<Rightarrow> Inr villa
      | Some d \<Rightarrow>
          if 0 < d \<and> ge_js d (req_pricePerNight req)
          then Inl (Resp 400 (JMsg ''Discounted price must be less than regular price''))
          else Inr (villa \<lparr> discountedPrice := Some d \<rparr>))"

definition updateMinRooms :: "villa_patch \<Rightarrow> villa \<Rightarrow> response + villa" where
  "updateMinRooms req villa =
     (case req_minRooms req of
        None \<Rightarrow> Inr villa
      | Some m \<Rightarrow>
          if gt_js m (req_bedrooms req)
          then Inl (Resp 400 (JMsg ''Minimum rooms cannot be greater than total bedrooms''))
          else Inr (villa \<lparr> minRooms := Some m \<rparr>))"

text \<open>
  The remaining fields, each by \<^verbatim>\<open>if (x !== undefined) villa.f = x\<close>. The bank
  details of the body are assigned as they are.
\<close>

definition updateRest :: "villa_patch \<Rightarrow> villa \<Rightarrow> villa" where
  "updateRest req villa = villa
     \<lparr> bedrooms := (case req_bedrooms req of None \<Rightarrow> bedrooms villa | Some x \<Rightarrow> Some x),
       bathrooms := (case req_bathrooms req of None \<Rightarrow> bathrooms villa | Some x \<Rightarrow> Some x),
       priceReductionPerRoom :=
         (case req_priceReductionPerRoom req of
            None \<Rightarrow> priceReductionPerRoom villa | Some x \<Rightarrow> Some x),
       maxGuests := (case req_maxGuests req of None \<Rightarrow> maxGuests villa | Some x \<Rightarrow> Some x),
       bankDetails := (case req_bankDetails req of None \<Rightarrow> bankDetails villa | Some x \<Rightarrow> x),
       promptPay := (case req_promptPay req of None \<Rightarrow> promptPay villa | Some x \<Rightarrow> Some x) \<rparr>"

definition patchVilla :: "villa \<Rightarrow> villa option \<Rightarrow> villa_patch \<Rightarrow> response \<times> villa option" where
  "patchVilla nv store req =
     (let villa = updatePricePerNight req (updateBeachfront req (updateTexts req
                    (findOrNew nv store)))
      in case updateDiscountedPrice req villa of
           Inl r \<Rightarrow> (r, store)
         | Inr villa \<Rightarrow>
             (case updateMinRooms req villa of
                Inl r \<Rightarrow> (r, store)
              | Inr villa \<Rightarrow>
                  (let villa = updateRest req villa
                   in (Resp 200 (JVilla villa), Some villa))))"

text \<open>
  The two tests of the handler as predicates on the request body: the request is refused
  by the validation of the discounted price, and by the validation of the minimum rooms.
\<close>

definition discountRejected :: "villa_patch \<Rightarrow> bool" where
  "discountRejected req =
     (case req_discountedPrice req of
        None \<Rightarrow> False
      | Some d \<Rightarrow> 0 < d \<and> ge_js d (req_pricePerNight req))"

definition minRoomsRejected :: "villa_patch \<Rightarrow> bool" where
  "minRoomsRejected req =
     (case req_minRooms req of None \<Rightarrow> False | Some m \<Rightarrow> gt_js m (req_bedrooms req))"

subsection \<open>Background image, slide images and the PromptPay QR code\<close>

text \<open>
  An uploaded file is its stored file name (\<^verbatim>\<open>req.file.filename\<close>); \<open>url\<close> is
  \<^verbatim>\<open>process.env.CLIENT_URL\<close>.
\<close>

definition villaUrl :: "string \<Rightarrow> string \<Rightarrow> string" where
  "villaUrl url f = url @ ''/uploads/villa/'' @ f"

definition qrUrl :: "string \<Rightarrow> string \<Rightarrow> string" where
  "qrUrl url f = url @ ''/uploads/QR/'' @ f"

definition roomUrl :: "string \<Rightarrow> string \<Rightarrow> string" where
  "roomUrl url f = url @ ''/uploads/rooms/'' @ f"

definition patchBackground :: "string \<Rightarrow> villa option \<Rightarrow> string option \<Rightarrow> response \<times> villa option" where
  "patchBackground url store file =
     (case file of
        None \<Rightarrow> (Resp 400 (JMsg ''No file uploaded''), store)
      | Some f \<Rightarrow>
          (case store of
             None \<Rightarrow> (Resp 404 (JMsg ''Villa not found''), store)
           | Some villa \<Rightarrow>
               (let villa = villa \<lparr> backgroundImage := Some (villaUrl url f) \<rparr>
                in (Resp 200 (JMsgUrl ''Background image updated successfully'' (villaUrl url f)),
                    Some villa))))"

definition postSlides :: "string \<Rightarrow> villa option \<Rightarrow> string list \<Rightarrow> response \<times> villa option" where
  "postSlides url store files =
     (if files = [] then (Resp 400 (JMsg ''No files uploaded''), store)
      else
        (case store of
           None \<Rightarrow> (Resp 404 (JMsg ''Villa not found''), store)
         | Some villa \<Rightarrow>
             (let villa = villa \<lparr> slideImages := map (\<lambda>f. Some (villaUrl url f)) files \<rparr>
              in (Resp 200 (JMsgUrls ''Slide images updated successfully'' (slideImages villa)),
                  Some villa))))"

definition deleteBackground :: "villa option \<Rightarrow> response \<times> villa option" where
  "deleteBackground store =
     (case store of
        None \<Rightarrow> (Resp 404 (JMsg ''Background image not found''), store)
      | Some villa \<Rightarrow>
          if \<not> truthy (backgroundImage villa)
          then (Resp 404 (JMsg ''Background image not found''), store)
          else (Resp 200 (JMsg ''Background image deleted successfully''),
                Some (villa \<lparr> backgroundImage := None \<rparr>)))"

text \<open>
  DELETE /slides/:index. The route parameter is taken to be an array index, a natural
  number. \<^verbatim>\<open>villa.slideImages\<close> is an array in every document, so the test
  \<^verbatim>\<open>!villa.slideImages\<close> never fires and has no branch here.
\<close>

definition deleteSlide :: "villa option \<Rightarrow> nat \<Rightarrow> response \<times> villa option" where
  "deleteSlide store index =
     (case store of
        None \<Rightarrow> (Resp 404 (JMsg ''Slide image not found''), store)
      | Some villa \<Rightarrow>
          if \<not> truthy (slide_at (slideImages villa) index)
          then (Resp 404 (JMsg ''Slide image not found''), store)
          else (Resp 200 (JMsg ''Slide image deleted successfully''),
                Some (villa \<lparr> slideImages := splice1 (slideImages villa) index \<rparr>)))"

text \<open>
  PATCH /slides/reorder. \<open>newOrder\<close> is \<open>None\<close> when the body's field is not an array;
  the entries of an array are numbers.
\<close>

definition reorderSlides :: "villa option \<Rightarrow> int list option \<Rightarrow> response \<times> villa option" where
  "reorderSlides store newOrder =
     (case store of
        None \<Rightarrow> (Resp 404 (JMsg ''Villa not found''), store)
      | Some villa \<Rightarrow>
          (case newOrder of
             None \<Rightarrow> (Resp 400 (JMsg ''Invalid order format''), store)
           | Some order \<Rightarrow>
               (let reorderedImages = map (\<lambda>index. slide_at_int (slideImages villa) index) order;
                    villa = villa \<lparr> slideImages := reorderedImages \<rparr>
                in (Resp 200 (JMsgVilla ''Slide images reordered successfully'' villa),
                    Some villa))))"

text \<open>\<^verbatim>\<open>villa.promptPay?.qrImage\<close>\<close>

definition qrOf :: "villa \<Rightarrow> string option" where
  "qrOf villa = (case promptPay villa of None \<Rightarrow> None | Some p \<Rightarrow> qrImage p)"

definition postPromptPayQr :: "string \<Rightarrow> villa option \<Rightarrow> string option \<Rightarrow> response \<times> villa option" where
  "postPromptPayQr url store file =
     (case file of
        None \<Rightarrow> (Resp 400 (JMsg ''No file uploaded''), store)
      | Some f \<Rightarrow>
          (case store of
             None \<Rightarrow> (Resp 404 (JMsg ''Villa not found''), store)
           | Some villa \<Rightarrow>
               (let p = (case promptPay villa of None \<Rightarrow> \<lparr> qrImage = None \<rparr> | Some p \<Rightarrow> p);
                    villa = villa \<lparr> promptPay := Some (p \<lparr> qrImage := Some (qrUrl url f) \<rparr>) \<rparr>
                in (Resp 200 (JMsgUrl ''QR code uploaded successfully'' (qrUrl url f)),
                    Some villa))))"

definition deletePromptPayQr :: "villa option \<Rightarrow> response \<times> villa option" where
  "deletePromptPayQr store =
     (case store of
        None \<Rightarrow> (Resp 404 (JMsg ''QR code not found''), store)
      | Some villa \<Rightarrow>
          if \<not> truthy (qrOf villa)
          then (Resp 404 (JMsg ''QR code not found''), store)
          else (Resp 200 (JMsg ''QR code deleted successfully''),
                Some (villa \<lparr> promptPay := map_option (\<lambda>p. p \<lparr> qrImage := None \<rparr>)
                                              (promptPay villa) \<rparr>)))"

subsection \<open>Rooms\<close>

text \<open>
  The text fields \<^verbatim>\<open>name\<close> and \<^verbatim>\<open>description\<close> of the multipart body go through
  \<^verbatim>\<open>JSON.parse\<close>; the request carries the outcome, \<open>None\<close> when \<^verbatim>\<open>JSON.parse\<close>
  throws, which the handler answers with 500 before it saves.
\<close>

definition postRoom ::
  "string \<Rightarrow> villa option \<Rightarrow> bilingual option \<Rightarrow> bilingual option \<Rightarrow> string list
    \<Rightarrow> response \<times> villa option" where
  "postRoom url store nm descr files =
     (case store of
        None \<Rightarrow> (Resp 404 (JMsg ''Villa not found''), store)
      | Some villa \<Rightarrow>
          (case (nm, descr) of
             (Some n, Some d) \<Rightarrow>
               (let villa = villa \<lparr> rooms := rooms villa @
                      [\<lparr> room_name = n, room_description = d,
                         images = map (roomUrl url) files \<rparr>] \<rparr>
                in (Resp 200 (JMsgVilla ''Room added successfully'' villa), Some villa))
           | _ \<Rightarrow> (Resp 500 (JErr ''Error adding room''), store)))"

definition patchRoom ::
  "string \<Rightarrow> villa option \<Rightarrow> nat \<Rightarrow> bilingual option \<Rightarrow> bilingual option \<Rightarrow> string list
    \<Rightarrow> response \<times> villa option" where
  "patchRoom url store index nm descr files =
     (case store of
        None \<Rightarrow> (Resp 404 (JMsg ''Villa not found''), store)
      | Some villa \<Rightarrow>
          (case at_js (rooms villa) index of
             None \<Rightarrow> (Resp 404 (JMsg ''Room not found''), store)
           | Some r \<Rightarrow>
               (case (nm, descr) of
                  (Some n, Some d) \<Rightarrow>
                    (let r = r \<lparr> images := (if files \<noteq> [] then map (roomUrl url) files
                                            else images r),
                                room_name := n, room_description := d \<rparr>;
                         villa = villa \<lparr> rooms := (rooms villa)[index := r] \<rparr>
                     in (Resp 200 (JMsgVilla ''Room updated successfully'' villa), Some villa))
                | _ \<Rightarrow> (Resp 500 (JErr ''Error updating room''), store))))"

definition deleteRoom :: "villa option \<Rightarrow> nat \<Rightarrow> response \<times> villa option" where
  "deleteRoom store index =
     (case store of
        None \<Rightarrow> (Resp 404 (JMsg ''Villa not found''), store)
      | Some villa \<Rightarrow>
          (case at_js (rooms villa) index of
             None \<Rightarrow> (Resp 404 (JMsg ''Room not found''), store)
           | Some r \<Rightarrow>
               (let villa = villa \<lparr> rooms := splice1 (rooms villa) index \<rparr>
                in (Resp 200 (JMsgVilla ''Room deleted successfully'' villa), Some villa))))"

subsection \<open>The router\<close>

datatype request =
    GetVilla
  | PatchBankDetails bank_json
  | PatchVilla villa_patch
  | PatchBackground "string option"
  | PostSlides "string list"
  | DeleteBackground
  | DeleteSlide nat
  | ReorderSlides "int list option"
  | PostPromptPayQr "string option"
  | DeletePromptPayQr
  | PostRoom "bilingual option" "bilingual option" "string list"
  | PatchRoom nat "bilingual option" "bilingual option" "string list"
  | DeleteRoom nat

fun handle :: "villa \<Rightarrow> string \<Rightarrow> villa option \<Rightarrow> request \<Rightarrow> response \<times> villa option" where
  "handle nv url store GetVilla = getVilla nv store"
| "handle nv url store (PatchBankDetails body) = patchBankDetails nv store body"
| "handle nv url store (PatchVilla req) = patchVilla nv store req"
| "handle nv url store (PatchBackground file) = patchBackground url store file"
| "handle nv url store (PostSlides files) = postSlides url store files"
| "handle nv url store DeleteBackground = deleteBackground store"
| "handle nv url store (DeleteSlide index) = deleteSlide store index"
| "handle nv url store (ReorderSlides newOrder) = reorderSlides store newOrder"
| "handle nv url store (PostPromptPayQr file) = postPromptPayQr url store file"
| "handle nv url store DeletePromptPayQr = deletePromptPayQr store"
| "handle nv url store (PostRoom nm descr files) = postRoom url store nm descr files"
| "handle nv url store (PatchRoom index nm descr files) = patchRoom url store index nm descr files"
| "handle nv url store (DeleteRoom index) = deleteRoom store index"

text \<open>A sequence of requests, served one after the other.\<close>

fun serve :: "villa \<Rightarrow> string \<Rightarrow> villa option \<Rightarrow> request list \<Rightarrow> villa option" where
  "serve nv url store [] = store"
| "serve nv url store (r # rs) = serve nv url (snd (handle nv url store r)) rs"

section \<open>The booking lifecycle\<close>

text \<open>
  The payment page (\<^verbatim>\<open>PaymentMethod.tsx\<close>) is the only part of the booking flow whose
  code is at hand; it calls the server through \<^verbatim>\<open>bookingApi\<close>. The server side of
  \<^verbatim>\<open>/bookings\<close> is modelled from the specification, the page from its source.
\<close>

subsection \<open>Data\<close>

datatype booking_status = Draft | PendingPayment | Pending | Confirmed | Expired | Cancelled

datatype payment_method = bank_transfer | promptpay

record payment_details =
  pd_method :: "payment_method option"
  pd_slipUrl :: string
  pd_status :: booking_status

record customer_info =
  firstName :: string
  lastName :: string
  contact :: string

text \<open>
  The booking as the page reads it (\<^verbatim>\<open>booking.bookingDetails.totalPrice\<close>,
  \<^verbatim>\<open>booking.customerInfo.firstName\<close>, \<^verbatim>\<open>booking.status\<close>, \<^verbatim>\<open>booking.createdAt\<close>,
  \<^verbatim>\<open>booking.expiresAt\<close>, \<^verbatim>\<open>bookingData.paymentSlipUrl\<close>) and as the data model of
  the spec lists it. Dates are day numbers, times are milliseconds, prices are integers.
\<close>

record booking_details =
  checkIn :: int
  checkOut :: int
  guests :: nat
  totalPrice :: int

record booking =
  customerInfo :: customer_info
  bookingDetails :: booking_details
  paymentMethod :: "payment_method option"
  paymentDetails :: "payment_details option"
  status :: booking_status
  paymentSlipUrl :: "string option"
  createdAt :: int
  expiresAt :: int

datatype booking_error = NotFound | InvalidTransition

text \<open>
  The Booking Record Store: bookings are never removed, so the store is the list of all
  bookings made and a booking's id is its position.
\<close>

type_synonym booking_store = "booking list"

subsection \<open>Server side\<close>

text \<open>
  Modelled from the spec: the price of one night after the discount that applies. The
  code that prices a booking is missing; the discount is an argument.
\<close>

definition effectivePricePerNight :: "int \<Rightarrow> int \<Rightarrow> int" where
  "effectivePricePerNight price discount = price - discount"

text \<open>
  Modelled from the spec: creation of a booking, which is missing from the sources. The
  total is the number of nights times the effective price of a night, the booking starts
  as a draft and expires a fixed payment window after its creation. The spec names no
  error for dates or guests out of their ranges, and none is checked here.
\<close>

definition newBooking ::
  "int \<Rightarrow> int \<Rightarrow> customer_info \<Rightarrow> int \<Rightarrow> int \<Rightarrow> nat \<Rightarrow> int \<Rightarrow> int \<Rightarrow> booking" where
  "newBooking now window customer ci co g price discount =
     \<lparr> customerInfo = customer,
       bookingDetails = \<lparr> checkIn = ci, checkOut = co, guests = g,
         totalPrice = (co - ci) * effectivePricePerNight price discount \<rparr>,
       paymentMethod = None, paymentDetails = None, status = Draft,
       paymentSlipUrl = None, createdAt = now, expiresAt = now + window \<rparr>"

text \<open>
  Modelled from the spec: the terminal states of the lifecycle (section 4.1), whose
  controller is missing from the sources.
\<close>

definition terminal :: "booking_status \<Rightarrow> bool" where
  "terminal s = (s = Confirmed \<or> s = Expired \<or> s = Cancelled)"

text \<open>
  Modelled from the spec: the method selection of the missing lifecycle controller, the
  transition to pending_payment. It requires that the booking exists and is not already
  terminal; it persists the method and sets the status.
\<close>

definition selectPaymentMethod :: "payment_method \<Rightarrow> booking \<Rightarrow> booking_error + booking" where
  "selectPaymentMethod m b =
     (if terminal (status b) then Inl InvalidTransition
      else Inr (b \<lparr> paymentMethod := Some m, status := PendingPayment \<rparr>))"

text \<open>
  Modelled from the spec: the transition pending_payment to pending of the missing
  lifecycle controller. It requires \<open>now < expiresAt\<close> and a booking that awaits its
  evidence; it persists the slip and the payment details. One test on the stored status
  decides, and a rejected submission writes nothing.
\<close>

definition submitPaymentEvidence :: "int \<Rightarrow> string \<Rightarrow> booking \<Rightarrow> booking_error + booking" where
  "submitPaymentEvidence now slipRef b =
     (if now < expiresAt b \<and> status b = PendingPayment
      then Inr (b \<lparr> paymentSlipUrl := Some slipRef,
                    paymentDetails := Some \<lparr> pd_method = paymentMethod b, pd_slipUrl = slipRef,
                                             pd_status = Pending \<rparr>,
                    status := Pending \<rparr>)
      else Inl InvalidTransition)"

text \<open>
  Modelled from the spec: the lazy expiry check of the missing lifecycle controller, the
  transition pending_payment to expired once \<open>now \<ge> expiresAt\<close>.
\<close>

definition expireIfDue :: "int \<Rightarrow> booking \<Rightarrow> booking" where
  "expireIfDue now b =
     (if status b = PendingPayment \<and> expiresAt b \<le> now then b \<lparr> status := Expired \<rparr> else b)"

text \<open>
  Modelled from the spec: the transition pending to confirmed, the administrator's
  verification, of the missing lifecycle controller.
\<close>

definition confirmBooking :: "booking \<Rightarrow> booking_error + booking" where
  "confirmBooking b =
     (if status b = Pending then Inr (b \<lparr> status := Confirmed \<rparr>) else Inl InvalidTransition)"

text \<open>
  Modelled from the spec: cancellation, permitted while the booking is not terminal, of
  the missing lifecycle controller.
\<close>

definition cancelBooking :: "booking \<Rightarrow> booking_error + booking" where
  "cancelBooking b =
     (if terminal (status b) then Inl InvalidTransition else Inr (b \<lparr> status := Cancelled \<rparr>))"

text \<open>
  Modelled from the spec: the operations of the missing \<^verbatim>\<open>/bookings/:id\<close> routes on one
  stored booking, at the server's time \<open>now\<close>. A read runs the expiry check first.
\<close>

datatype booking_op =
    SelectPaymentMethod payment_method
  | SubmitPaymentEvidence string
  | GetBooking
  | ConfirmBooking
  | CancelBooking

fun transition :: "int \<Rightarrow> booking_op \<Rightarrow> booking \<Rightarrow> booking_error + booking" where
  "transition now (SelectPaymentMethod m) b = selectPaymentMethod m b"
| "transition now (SubmitPaymentEvidence slipRef) b = submitPaymentEvidence now slipRef b"
| "transition now GetBooking b = Inr (expireIfDue now b)"
| "transition now ConfirmBooking b = confirmBooking b"
| "transition now CancelBooking b = cancelBooking b"

text \<open>
  Modelled from the spec: a request on the booking with id \<open>bid\<close> of the missing routes: 404 when
  there is no such booking, 409 when the transition is refused, and the store written only
  when the transition is accepted.
\<close>

definition perform ::
  "int \<Rightarrow> nat \<Rightarrow> booking_op \<Rightarrow> booking_store \<Rightarrow> (booking_error + booking) \<times> booking_store" where
  "perform now bid op store =
     (case at_js store bid of
        None \<Rightarrow> (Inl NotFound, store)
      | Some b \<Rightarrow>
          (case transition now op b of
             Inl e \<Rightarrow> (Inl e, store)
           | Inr b' \<Rightarrow> (Inr b', store[bid := b'])))"

text \<open>Modelled from the spec: the missing creation route; the new booking's id is returned.\<close>

definition createBooking ::
  "int \<Rightarrow> int \<Rightarrow> customer_info \<Rightarrow> int \<Rightarrow> int \<Rightarrow> nat \<Rightarrow> int \<Rightarrow> int \<Rightarrow> booking_store
    \<Rightarrow> nat \<times> booking_store" where
  "createBooking now window customer ci co g price discount store =
     (length store, store @ [newBooking now window customer ci co g price discount])"

text \<open>
  Modelled from the spec: what the missing server does over time, a sequence of requests
  each with the time at which it is served.
\<close>

datatype event =
    Create int customer_info int int nat int int
  | Request nat booking_op

fun run :: "(int \<times> event) list \<Rightarrow> booking_store \<Rightarrow> booking_store" where
  "run [] store = store"
| "run ((now, Create window customer ci co g price discount) # es) store =
     run es (snd (createBooking now window customer ci co g price discount store))"
| "run ((now, Request bid op) # es) store = run es (snd (perform now bid op store))"


text \<open>
  The slip \<open>s\<close> is on record: the booking holds it and is past the submission (awaiting
  verification, confirmed, or cancelled after the submission).
\<close>

definition evidenceRecorded :: "string \<Rightarrow> booking \<Rightarrow> bool" where
  "evidenceRecorded s b =
     (paymentSlipUrl b = Some s \<and> (status b = Pending \<or> status b = Confirmed \<or> status b = Cancelled))"



subsection \<open>The payment page\<close>

text \<open>
  The React state of \<^verbatim>\<open>PaymentMethod\<close> that its handlers read and write. The state
  variables \<^verbatim>\<open>booking\<close> and \<^verbatim>\<open>paymentSlipUrl\<close> are \<open>shownBooking\<close> and
  \<open>slipUrlState\<close> here, apart from the fields of the stored booking; a file is its name.
  \<open>location\<close> is where \<^verbatim>\<open>navigate\<close> has taken the browser: \<^verbatim>\<open>/\<close> is \<open>Home\<close> and
  \<^verbatim>\<open>/booking/:id/confirmation\<close> is \<open>Confirmation\<close>.
\<close>

datatype route = PaymentPage | Home | Confirmation

record page =
  location :: route
  isLoading :: bool
  shownBooking :: "booking option"
  selectedMethod :: payment_method
  slipUrlState :: string
  selectedFile :: "string option"
  isPaymentConfirmed :: bool

text \<open>
  \<^verbatim>\<open>fetchBooking\<close>: loads the booking, and locks the upload when the booking already has
  a payment slip. \<^verbatim>\<open>bookingApi.getBooking\<close> is the read of the server model.
\<close>

definition fetchBooking :: "int \<Rightarrow> nat \<Rightarrow> page \<Rightarrow> booking_store \<Rightarrow> page \<times> booking_store" where
  "fetchBooking now bid pg store =
     (case perform now bid GetBooking store of
        (Inl e, store') \<Rightarrow> (pg \<lparr> location := Home, isLoading := False \<rparr>, store')
      | (Inr bookingData, store') \<Rightarrow>
          (if truthy (paymentSlipUrl bookingData)
           then (pg \<lparr> shownBooking := Some bookingData,
                      slipUrlState := (case paymentSlipUrl bookingData of None \<Rightarrow> [] | Some u \<Rightarrow> u),
                      isPaymentConfirmed := True, isLoading := False \<rparr>, store')
           else (pg \<lparr> shownBooking := Some bookingData, isLoading := False \<rparr>, store')))"

text \<open>\<^verbatim>\<open>handleFileSelect\<close>: ignored once the payment is confirmed.\<close>

definition handleFileSelect :: "string \<Rightarrow> page \<Rightarrow> page" where
  "handleFileSelect file pg =
     (if isPaymentConfirmed pg then pg else pg \<lparr> selectedFile := Some file \<rparr>)"

text \<open>
  \<^verbatim>\<open>handleConfirmPayment\<close>. \<open>upload\<close> is the answer of \<^verbatim>\<open>POST /api/upload/slip\<close> for a
  file: its \<^verbatim>\<open>fileUrl\<close>, or \<open>None\<close> when the response is not ok. The update sent with
  status \<^verbatim>\<open>pending\<close> and the slip is the evidence submission of the server model. The page
  marks the payment confirmed before the server has answered, and a refusal (caught, shown
  as a toast) does not take that back; it navigates to the confirmation only when the
  server has accepted.
\<close>

definition handleConfirmPayment ::
  "(string \<Rightarrow> string option) \<Rightarrow> int \<Rightarrow> nat \<Rightarrow> page \<Rightarrow> booking_store \<Rightarrow> page \<times> booking_store" where
  "handleConfirmPayment upload now bid pg store =
     (case selectedFile pg of
        None \<Rightarrow> (pg, store)
      | Some file \<Rightarrow>
          if isPaymentConfirmed pg then (pg, store)
          else
            (case upload file of
               None \<Rightarrow> (pg \<lparr> isLoading := False \<rparr>, store)
             | Some fileUrl \<Rightarrow>
                 (case perform now bid (SubmitPaymentEvidence fileUrl) store of
                    (Inl e, store') \<Rightarrow>
                      (pg \<lparr> slipUrlState := fileUrl, isPaymentConfirmed := True,
                            isLoading := False \<rparr>, store')
                  | (Inr b, store') \<Rightarrow>
                      (pg \<lparr> slipUrlState := fileUrl, isPaymentConfirmed := True,
                            location := Confirmation, isLoading := False \<rparr>, store'))))"

text \<open>
  \<^verbatim>\<open>handlePaymentMethodSelect\<close>: sends the method with status \<^verbatim>\<open>pending_payment\<close>, the
  method selection of the server model. Only its effect on the store is kept here.
\<close>

definition handlePaymentMethodSelect ::
  "int \<Rightarrow> nat \<Rightarrow> payment_method \<Rightarrow> booking_store \<Rightarrow> booking_store" where
  "handlePaymentMethodSelect now bid m store = snd (perform now bid (SelectPaymentMethod m) store)"




section \<open>Concrete inputs\<close>

text \<open>A document with nothing set, an empty request body and a customer, for the examples.\<close>

definition blankVilla :: villa where
  "blankVilla =
     \<lparr> name = \<lparr> en = None, th = None \<rparr>, title = \<lparr> en = None, th = None \<rparr>,
       description = \<lparr> en = None, th = None \<rparr>, beachfront = \<lparr> en = None, th = None \<rparr>,
       pricePerNight = None, discountedPrice = None, priceReductionPerRoom = None,
       maxGuests = None, bedrooms = None, bathrooms = None, minRooms = None,
       backgroundImage = None, slideImages = [], rooms = [], bankDetails = BankArray [],
       promptPay = None \<rparr>"

definition emptyPatch :: villa_patch where
  "emptyPatch =
     \<lparr> req_name = None, req_title = None, req_description = None, req_beachfront = None,
       req_maxGuests = None, req_bedrooms = None, req_minRooms = None, req_bathrooms = None,
       req_pricePerNight = None, req_discountedPrice = None, req_priceReductionPerRoom = None,
       req_bankDetails = None, req_promptPay = None \<rparr>"

definition villa0 :: villa where
  "villa0 = defaultVilla blankVilla"

text \<open>Request bodies of PATCH / used in the examples.\<close>

definition discountRequest :: villa_patch where
  "discountRequest = emptyPatch \<lparr> req_pricePerNight := Some 299, req_discountedPrice := Some 100 \<rparr>"

definition discountAndRoomsRequest :: villa_patch where
  "discountAndRoomsRequest = emptyPatch
     \<lparr> req_bedrooms := Some 3, req_minRooms := Some 5,
       req_pricePerNight := Some 299, req_discountedPrice := Some 100 \<rparr>"

definition roomsRequest :: villa_patch where
  "roomsRequest = emptyPatch \<lparr> req_bedrooms := Some 3, req_minRooms := Some 2 \<rparr>"

definition tooManyRoomsRequest :: villa_patch where
  "tooManyRoomsRequest = emptyPatch \<lparr> req_bedrooms := Some 3, req_minRooms := Some 5 \<rparr>"

definition roomsAndDiscountRequest :: villa_patch where
  "roomsAndDiscountRequest = emptyPatch
     \<lparr> req_bedrooms := Some 3, req_minRooms := Some 1,
       req_pricePerNight := Some 299, req_discountedPrice := Some 500 \<rparr>"

definition onlyMinRoomsRequest :: villa_patch where
  "onlyMinRoomsRequest = emptyPatch \<lparr> req_minRooms := Some 10 \<rparr>"

definition onlyDiscountRequest :: villa_patch where
  "onlyDiscountRequest = emptyPatch \<lparr> req_discountedPrice := Some 500 \<rparr>"

definition noNameEntry :: bank_entry where
  "noNameEntry = \<lparr> bank = None, accountNumber = Some ''123 456'', accountName = Some ''Ann Lee'' \<rparr>"

definition blankNameEntry :: bank_entry where
  "blankNameEntry =
     \<lparr> bank = Some '' '', accountNumber = Some ''123 456'', accountName = Some ''Ann Lee'' \<rparr>"

definition bankRequest :: villa_patch where
  "bankRequest = emptyPatch \<lparr> req_bankDetails := Some (BankArray [noNameEntry]) \<rparr>"

text \<open>Villas with slide images, for the examples.\<close>

definition fiveSlides :: villa where
  "fiveSlides = blankVilla \<lparr> slideImages := [Some ''a'', Some ''b'', Some ''c'', Some ''d'', Some ''e''] \<rparr>"

definition threeSlides :: villa where
  "threeSlides = blankVilla \<lparr> slideImages := [Some ''a'', Some ''b'', Some ''c''] \<rparr>"

definition guest :: customer_info where
  "guest = \<lparr> firstName = ''Ann'', lastName = ''Lee'', contact = ''ann@example.org'' \<rparr>"






section \<open>Properties of the villa routes\<close>

subsection \<open>What each handler can answer, and when it writes\<close>

lemma getVilla_outcome:
  "getVilla nv store = (r, store') \<Longrightarrow> resp_status r = 200 \<and> store' \<noteq> None"
  by (cases store) (auto simp: getVilla_def Let_def)

lemma patchBankDetails_outcome:
  "patchBankDetails nv store body = (r, store') \<Longrightarrow>
     (resp_status r = 400 \<and> store' = store) \<or> (resp_status r = 200 \<and> store' \<noteq> None)"
  by (cases body) (auto simp: patchBankDetails_def Let_def split: if_splits)

lemma patchVilla_outcome:
  "patchVilla nv store req = (r, store') \<Longrightarrow>
     (resp_status r = 400 \<and> store' = store) \<or> (resp_status r = 200 \<and> store' \<noteq> None)"
  unfolding patchVilla_def Let_def updateDiscountedPrice_def updateMinRooms_def
  by (auto split: sum.splits option.splits if_splits)

lemma patchBackground_outcome:
  "patchBackground url store f = (r, store') \<Longrightarrow>
     (resp_status r \<noteq> 200 \<and> store' = store)
     \<or> (resp_status r = 200 \<and> store \<noteq> None \<and> store' \<noteq> None)"
  by (cases f; cases store) (auto simp: patchBackground_def Let_def)

lemma postSlides_outcome:
  "postSlides url store files = (r, store') \<Longrightarrow>
     (resp_status r \<noteq> 200 \<and> store' = store)
     \<or> (resp_status r = 200 \<and> store \<noteq> None \<and> store' \<noteq> None)"
  by (cases store) (auto simp: postSlides_def Let_def split: if_splits)

lemma deleteBackground_outcome:
  "deleteBackground store = (r, store') \<Longrightarrow>
     (resp_status r = 404 \<and> store' = store)
     \<or> (resp_status r = 200 \<and> store \<noteq> None \<and> store' \<noteq> None)"
  by (cases store) (auto simp: deleteBackground_def split: if_splits)

lemma deleteSlide_outcome:
  "deleteSlide store i = (r, store') \<Longrightarrow>
     (resp_status r = 404 \<and> store' = store)
     \<or> (resp_status r = 200 \<and> store \<noteq> None \<and> store' \<noteq> None)"
  by (cases store) (auto simp: deleteSlide_def split: if_splits)

lemma reorderSlides_outcome:
  "reorderSlides store order = (r, store') \<Longrightarrow>
     (resp_status r \<noteq> 200 \<and> store' = store)
     \<or> (resp_status r = 200 \<and> store \<noteq> None \<and> store' \<noteq> None)"
  by (cases store; cases order) (auto simp: reorderSlides_def Let_def)

lemma postPromptPayQr_outcome:
  "postPromptPayQr url store f = (r, store') \<Longrightarrow>
     (resp_status r \<noteq> 200 \<and> store' = store)
     \<or> (resp_status r = 200 \<and> store \<noteq> None \<and> store' \<noteq> None)"
  by (cases f; cases store) (auto simp: postPromptPayQr_def Let_def)

lemma deletePromptPayQr_outcome:
  "deletePromptPayQr store = (r, store') \<Longrightarrow>
     (resp_status r = 404 \<and> store' = store)
     \<or> (resp_status r = 200 \<and> store \<noteq> None \<and> store' \<noteq> None)"
  by (cases store) (auto simp: deletePromptPayQr_def split: if_splits)

lemma postRoom_outcome:
  "postRoom url store nm d files = (r, store') \<Longrightarrow>
     (resp_status r \<noteq> 200 \<and> resp_status r \<noteq> 400 \<and> store' = store)
     \<or> (resp_status r = 200 \<and> store \<noteq> None \<and> store' \<noteq> None)"
  by (cases store; cases nm; cases d) (auto simp: postRoom_def Let_def)

lemma patchRoom_outcome:
  "patchRoom url store i nm d files = (r, store') \<Longrightarrow>
     (resp_status r \<noteq> 200 \<and> resp_status r \<noteq> 400 \<and> store' = store)
     \<or> (resp_status r = 200 \<and> store \<noteq> None \<and> store' \<noteq> None)"
  by (cases store; cases nm; cases d; cases "at_js (rooms (the store)) i") (auto simp: patchRoom_def Let_def)

lemma deleteRoom_outcome:
  "deleteRoom store i = (r, store') \<Longrightarrow>
     (resp_status r = 404 \<and> store' = store)
     \<or> (resp_status r = 200 \<and> store \<noteq> None \<and> store' \<noteq> None)"
  by (cases store; cases "at_js (rooms (the store)) i") (auto simp: deleteRoom_def Let_def)

lemma handle_outcome:
  "handle nv url store req = (r, store') \<Longrightarrow>
     (resp_status r \<noteq> 200 \<and> store' = store) \<or> (resp_status r = 200 \<and> store' \<noteq> None)"
proof (cases req)
  case GetVilla
  then show "handle nv url store req = (r, store') \<Longrightarrow> ?thesis"
    using getVilla_outcome[of nv store r store'] by simp
next
  case (PatchBankDetails body)
  then show "handle nv url store req = (r, store') \<Longrightarrow> ?thesis"
    using patchBankDetails_outcome[of nv store body r store'] by auto
next
  case (PatchVilla p)
  then show "handle nv url store req = (r, store') \<Longrightarrow> ?thesis"
    using patchVilla_outcome[of nv store p r store'] by auto
next
  case (PatchBackground f)
  then show "handle nv url store req = (r, store') \<Longrightarrow> ?thesis"
    using patchBackground_outcome[of url store f r store'] by auto
next
  case (PostSlides fs)
  then show "handle nv url store req = (r, store') \<Longrightarrow> ?thesis"
    using postSlides_outcome[of url store fs r store'] by auto
next
  case DeleteBackground
  then show "handle nv url store req = (r, store') \<Longrightarrow> ?thesis"
    using deleteBackground_outcome[of store r store'] by auto
next
  case (DeleteSlide i)
  then show "handle nv url store req = (r, store') \<Longrightarrow> ?thesis"
    using deleteSlide_outcome[of store i r store'] by auto
next
  case (ReorderSlides order)
  then show "handle nv url store req = (r, store') \<Longrightarrow> ?thesis"
    using reorderSlides_outcome[of store order r store'] by auto
next
  case (PostPromptPayQr f)
  then show "handle nv url store req = (r, store') \<Longrightarrow> ?thesis"
    using postPromptPayQr_outcome[of url store f r store'] by auto
next
  case DeletePromptPayQr
  then show "handle nv url store req = (r, store') \<Longrightarrow> ?thesis"
    using deletePromptPayQr_outcome[of store r store'] by auto
next
  case (PostRoom nm d fs)
  then show "handle nv url store req = (r, store') \<Longrightarrow> ?thesis"
    using postRoom_outcome[of url store nm d fs r store'] by auto
next
  case (PatchRoom i nm d fs)
  then show "handle nv url store req = (r, store') \<Longrightarrow> ?thesis"
    using patchRoom_outcome[of url store i nm d fs r store'] by auto
next
  case (DeleteRoom i)
  then show "handle nv url store req = (r, store') \<Longrightarrow> ?thesis"
    using deleteRoom_outcome[of store i r store'] by auto
qed

lemma handle_keeps: "snd (handle nv url (Some v) req) \<noteq> None"
  using handle_outcome[of nv url "Some v" req "fst (handle nv url (Some v) req)" "snd (handle nv url (Some v) req)"]
  by auto

lemma serve_keeps: "serve nv url (Some v) rs \<noteq> None"
proof (induction rs arbitrary: v)
  case Nil
  show ?case by simp
next
  case (Cons r rs)
  obtain v' where "snd (handle nv url (Some v) r) = Some v'"
    using handle_keeps[of nv url v r] by auto
  with Cons show ?case by simp
qed

lemma villa0_fields:
  "pricePerNight villa0 = Some 299" "bedrooms villa0 = Some 3" "discountedPrice villa0 = None"
  "minRooms villa0 = None" "bankDetails villa0 = BankArray []" "slideImages villa0 = []"
  by (simp_all add: villa0_def defaultVilla_def blankVilla_def)

lemma emptyPatch_fields:
  "req_discountedPrice emptyPatch = None" "req_pricePerNight emptyPatch = None"
  "req_minRooms emptyPatch = None" "req_bedrooms emptyPatch = None"
  by (simp_all add: emptyPatch_def)

subsection \<open>What PATCH / does with a request\<close>

lemma patchVilla_discount_rejected:
  "req_discountedPrice req = Some d \<Longrightarrow> 0 < d \<Longrightarrow> ge_js d (req_pricePerNight req) \<Longrightarrow>
   patchVilla nv store req =
     (Resp 400 (JMsg ''Discounted price must be less than regular price''), store)"
  by (simp add: patchVilla_def Let_def updateDiscountedPrice_def)

lemma patchVilla_minRooms_rejected:
  "req_minRooms req = Some m \<Longrightarrow> gt_js m (req_bedrooms req) \<Longrightarrow>
   \<exists>msg. patchVilla nv store req = (Resp 400 (JMsg msg), store)"
  by (simp add: patchVilla_def Let_def updateDiscountedPrice_def updateMinRooms_def
      split: option.splits)

lemma updateTexts_sel [simp]:
  "discountedPrice (updateTexts req villa) = discountedPrice villa"
  "minRooms (updateTexts req villa) = minRooms villa"
  "pricePerNight (updateTexts req villa) = pricePerNight villa"
  "bedrooms (updateTexts req villa) = bedrooms villa"
  by (simp_all add: updateTexts_def split: option.splits)

lemma updateBeachfront_sel [simp]:
  "discountedPrice (updateBeachfront req villa) = discountedPrice villa"
  "minRooms (updateBeachfront req villa) = minRooms villa"
  "pricePerNight (updateBeachfront req villa) = pricePerNight villa"
  "bedrooms (updateBeachfront req villa) = bedrooms villa"
  by (simp_all add: updateBeachfront_def split: option.splits)

lemma updatePricePerNight_sel [simp]:
  "discountedPrice (updatePricePerNight req villa) = discountedPrice villa"
  "minRooms (updatePricePerNight req villa) = minRooms villa"
  "bedrooms (updatePricePerNight req villa) = bedrooms villa"
  "pricePerNight (updatePricePerNight req villa) =
     (case req_pricePerNight req of None \<Rightarrow> pricePerNight villa | Some p \<Rightarrow> Some p)"
  by (simp_all add: updatePricePerNight_def split: option.splits)

lemma updateRest_sel [simp]:
  "discountedPrice (updateRest req villa) = discountedPrice villa"
  "minRooms (updateRest req villa) = minRooms villa"
  "pricePerNight (updateRest req villa) = pricePerNight villa"
  "bedrooms (updateRest req villa) =
     (case req_bedrooms req of None \<Rightarrow> bedrooms villa | Some b \<Rightarrow> Some b)"
  by (simp_all add: updateRest_def)

lemma patchVilla_accepted:
  "\<not> discountRejected req \<Longrightarrow> \<not> minRoomsRejected req \<Longrightarrow>
   \<exists>villa. patchVilla nv store req = (Resp 200 (JVilla villa), Some villa)
     \<and> discountedPrice villa =
         (case req_discountedPrice req of None \<Rightarrow> discountedPrice (findOrNew nv store) | Some d \<Rightarrow> Some d)
     \<and> minRooms villa =
         (case req_minRooms req of None \<Rightarrow> minRooms (findOrNew nv store) | Some m \<Rightarrow> Some m)
     \<and> pricePerNight villa =
         (case req_pricePerNight req of None \<Rightarrow> pricePerNight (findOrNew nv store) | Some p \<Rightarrow> Some p)
     \<and> bedrooms villa =
         (case req_bedrooms req of None \<Rightarrow> bedrooms (findOrNew nv store) | Some b \<Rightarrow> Some b)"
  by (cases "req_discountedPrice req"; cases "req_minRooms req")
     (simp_all add: patchVilla_def Let_def updateDiscountedPrice_def updateMinRooms_def
        discountRejected_def minRoomsRejected_def cong: option.case_cong)

subsection \<open>A refused update writes nothing\<close>

text \<open>
  Claim C7. Whenever a request to the villa router is answered with HTTP 400, the
  persisted villa is the one that was there before the request: PATCH / changes only the
  document it holds in memory, and every 400 is returned before \<^verbatim>\<open>save()\<close>. The same
  holds for the other handlers of the router.
\<close>

theorem rejected_update_persists_nothing:
  "handle nv url store req = (r, store') \<Longrightarrow> resp_status r = 400 \<Longrightarrow> store' = store"
  using handle_outcome[of nv url store req r store'] by auto

theorem rejected_update_persists_nothing_witness:
  "resp_status (fst (handle blankVilla [] (Some villa0)
      (PatchVilla (emptyPatch \<lparr> req_pricePerNight := Some 500, req_discountedPrice := Some 600 \<rparr>)))) = 400
   \<and> snd (handle blankVilla [] (Some villa0)
      (PatchVilla (emptyPatch \<lparr> req_pricePerNight := Some 500, req_discountedPrice := Some 600 \<rparr>))) = Some villa0"
proof -
  let ?req = "emptyPatch \<lparr> req_pricePerNight := Some 500, req_discountedPrice := Some 600 \<rparr>"
  have e: "handle blankVilla [] (Some villa0) (PatchVilla ?req) =
      (Resp 400 (JMsg ''Discounted price must be less than regular price''), Some villa0)"
    by (simp add: patchVilla_discount_rejected[of _ 600])
  have h: "resp_status (fst (handle blankVilla [] (Some villa0) (PatchVilla ?req))) = 400"
    using e by simp
  from rejected_update_persists_nothing[OF prod.collapse[symmetric] h] h show ?thesis by simp
qed

subsection \<open>The villa is created on the first read and never removed\<close>

text \<open>
  Claim C9. With no villa stored, GET / creates the villa from the hardcoded defaults
  (price per night 299, 6 guests, 3 bedrooms, 3 bathrooms), stores it and returns it; with
  a villa stored, GET / returns that villa and leaves the store as it is; and whatever
  requests the router serves afterwards, a villa remains in the store.
\<close>

theorem getVilla_lazy_default:
  "getVilla nv None = (Resp 200 (JVilla (defaultVilla nv)), Some (defaultVilla nv))
   \<and> pricePerNight (defaultVilla nv) = Some 299
   \<and> maxGuests (defaultVilla nv) = Some 6
   \<and> bedrooms (defaultVilla nv) = Some 3
   \<and> bathrooms (defaultVilla nv) = Some 3
   \<and> getVilla nv (Some v) = (Resp 200 (JVilla v), Some v)
   \<and> serve nv url (Some v) rs \<noteq> None"
proof -
  have "getVilla nv None = (Resp 200 (JVilla (defaultVilla nv)), Some (defaultVilla nv))"
    by (simp add: getVilla_def Let_def)
  moreover have "pricePerNight (defaultVilla nv) = Some 299" "maxGuests (defaultVilla nv) = Some 6"
    "bedrooms (defaultVilla nv) = Some 3" "bathrooms (defaultVilla nv) = Some 3"
    by (simp_all add: defaultVilla_def)
  moreover have "getVilla nv (Some v) = (Resp 200 (JVilla v), Some v)"
    by (simp add: getVilla_def)
  ultimately show ?thesis using serve_keeps[of nv url v rs] by simp
qed

theorem getVilla_lazy_default_witness:
  "fst (getVilla blankVilla (snd (getVilla blankVilla None))) = fst (getVilla blankVilla None)
   \<and> serve blankVilla ''http://h'' (snd (getVilla blankVilla None))
        [DeleteBackground, DeleteSlide 0, DeleteRoom 0, GetVilla] = Some (defaultVilla blankVilla)"
proof -
  note t = getVilla_lazy_default[of blankVilla "defaultVilla blankVilla" "''http://h''"
      "[DeleteBackground, DeleteSlide 0, DeleteRoom 0, GetVilla]"]
  have bg: "backgroundImage (defaultVilla blankVilla) = None"
    and sl: "slideImages (defaultVilla blankVilla) = []"
    and rm: "rooms (defaultVilla blankVilla) = []"
    by (simp_all add: defaultVilla_def blankVilla_def)
  have "serve blankVilla ''http://h'' (Some (defaultVilla blankVilla))
        [DeleteBackground, DeleteSlide 0, DeleteRoom 0, GetVilla] = Some (defaultVilla blankVilla)"
    by (simp add: deleteBackground_def deleteSlide_def deleteRoom_def getVilla_def bg sl rm
          slide_at_def at_js_def)
  with t show ?thesis by simp
qed

subsection \<open>The validations of PATCH /\<close>

text \<open>
  Claim C4, as amended. For a request to PATCH / that carries a discounted price \<open>d\<close>
  and a price per night \<open>p\<close>: when \<open>0 < d\<close> and \<open>p \<le> d\<close> the request is answered
  with 400 and nothing is stored; otherwise, unless the validation of the minimum rooms
  refuses the request, the villa is saved with the discounted price \<open>d\<close> and the price
  \<open>p\<close>.
\<close>

theorem discountedPrice_validation:
  assumes "req_discountedPrice req = Some d" and "req_pricePerNight req = Some p"
  shows "(0 < d \<and> p \<le> d \<longrightarrow>
            patchVilla nv store req =
              (Resp 400 (JMsg ''Discounted price must be less than regular price''), store))
       \<and> (\<not> (0 < d \<and> p \<le> d) \<and> \<not> minRoomsRejected req \<longrightarrow>
            (\<exists>villa. patchVilla nv store req = (Resp 200 (JVilla villa), Some villa)
               \<and> discountedPrice villa = Some d \<and> pricePerNight villa = Some p))"
proof (intro conjI impI)
  assume "0 < d \<and> p \<le> d"
  with assms show "patchVilla nv store req =
      (Resp 400 (JMsg ''Discounted price must be less than regular price''), store)"
    by (simp add: patchVilla_discount_rejected)
next
  assume a: "\<not> (0 < d \<and> p \<le> d) \<and> \<not> minRoomsRejected req"
  with assms have "\<not> discountRejected req" by (simp add: discountRejected_def)
  with a patchVilla_accepted[of req nv store] assms
  show "\<exists>villa. patchVilla nv store req = (Resp 200 (JVilla villa), Some villa)
               \<and> discountedPrice villa = Some d \<and> pricePerNight villa = Some p"
    by auto
qed

theorem discountedPrice_validation_witness:
  "\<exists>villa. patchVilla blankVilla (Some villa0) discountRequest = (Resp 200 (JVilla villa), Some villa)
     \<and> discountedPrice villa = Some 100 \<and> pricePerNight villa = Some 299"
proof -
  have "req_discountedPrice discountRequest = Some 100" "req_pricePerNight discountRequest = Some 299"
    "\<not> minRoomsRejected discountRequest"
    by (simp_all add: discountRequest_def minRoomsRejected_def emptyPatch_fields)
  from discountedPrice_validation[OF this(1,2), of blankVilla "Some villa0"] this(3)
  show ?thesis by simp
qed

text \<open>
  Claim C4 as stated fails: this request carries a discounted price of 100 below its price
  of 299, which is also the stored price, and yet it is answered with 400 and the
  discounted price is not stored, because its minimum rooms exceed its bedrooms.
\<close>

theorem discountedPrice_not_stored_counterexample:
  "req_discountedPrice discountAndRoomsRequest = Some 100
   \<and> req_pricePerNight discountAndRoomsRequest = Some 299
   \<and> pricePerNight villa0 = Some 299
   \<and> patchVilla blankVilla (Some villa0) discountAndRoomsRequest =
       (Resp 400 (JMsg ''Minimum rooms cannot be greater than total bedrooms''), Some villa0)
   \<and> discountedPrice villa0 \<noteq> Some 100"
  by (simp add: discountAndRoomsRequest_def emptyPatch_fields villa0_fields patchVilla_def Let_def
        updateDiscountedPrice_def updateMinRooms_def)

text \<open>
  The discounted price is compared with the price of the request body only. A request
  without a price is not checked against the stored price.
\<close>

lemma discount_unchecked_without_price:
  "\<exists>villa. patchVilla blankVilla (Some villa0) onlyDiscountRequest = (Resp 200 (JVilla villa), Some villa)
     \<and> discountedPrice villa = Some 500 \<and> pricePerNight villa = Some 299"
proof -
  have "\<not> discountRejected onlyDiscountRequest" "\<not> minRoomsRejected onlyDiscountRequest"
    by (simp_all add: onlyDiscountRequest_def discountRejected_def minRoomsRejected_def emptyPatch_fields)
  from patchVilla_accepted[OF this, of blankVilla "Some villa0"]
  show ?thesis by (auto simp add: onlyDiscountRequest_def emptyPatch_fields findOrNew_def villa0_fields)
qed

text \<open>
  Claim C5, as amended. For a request to PATCH / that carries minimum rooms \<open>m\<close> and
  bedrooms \<open>b\<close>: when \<open>b < m\<close> the request is answered with 400 and nothing is stored;
  when \<open>m \<le> b\<close> and the validation of the discounted price does not refuse the request,
  the villa is saved with minimum rooms \<open>m\<close> and bedrooms \<open>b\<close>.
\<close>

theorem minRooms_validation:
  assumes "req_minRooms req = Some m" and "req_bedrooms req = Some b"
  shows "(b < m \<longrightarrow>
            (\<exists>msg. patchVilla nv store req = (Resp 400 (JMsg msg), store))
            \<and> (\<not> discountRejected req \<longrightarrow> patchVilla nv store req =
                 (Resp 400 (JMsg ''Minimum rooms cannot be greater than total bedrooms''), store)))
       \<and> (m \<le> b \<and> \<not> discountRejected req \<longrightarrow>
            (\<exists>villa. patchVilla nv store req = (Resp 200 (JVilla villa), Some villa)
               \<and> minRooms villa = Some m \<and> bedrooms villa = Some b))"
proof (intro conjI impI)
  assume "b < m"
  with assms show "\<exists>msg. patchVilla nv store req = (Resp 400 (JMsg msg), store)"
    by (simp add: patchVilla_minRooms_rejected)
next
  assume "b < m" and "\<not> discountRejected req"
  with assms show "patchVilla nv store req =
      (Resp 400 (JMsg ''Minimum rooms cannot be greater than total bedrooms''), store)"
    by (cases "req_discountedPrice req")
       (simp_all add: patchVilla_def Let_def updateDiscountedPrice_def updateMinRooms_def
          discountRejected_def)
next
  assume a: "m \<le> b \<and> \<not> discountRejected req"
  with assms have "\<not> minRoomsRejected req" by (simp add: minRoomsRejected_def)
  with a patchVilla_accepted[of req nv store] assms
  show "\<exists>villa. patchVilla nv store req = (Resp 200 (JVilla villa), Some villa)
               \<and> minRooms villa = Some m \<and> bedrooms villa = Some b"
    by auto
qed

theorem minRooms_validation_witness:
  "(\<exists>villa. patchVilla blankVilla (Some villa0) roomsRequest = (Resp 200 (JVilla villa), Some villa)
      \<and> minRooms villa = Some 2 \<and> bedrooms villa = Some 3)
   \<and> patchVilla blankVilla (Some villa0) tooManyRoomsRequest =
       (Resp 400 (JMsg ''Minimum rooms cannot be greater than total bedrooms''), Some villa0)"
proof -
  have a: "req_minRooms roomsRequest = Some 2" "req_bedrooms roomsRequest = Some 3"
    and a': "\<not> discountRejected roomsRequest"
    by (simp_all add: roomsRequest_def discountRejected_def emptyPatch_fields)
  have b: "req_minRooms tooManyRoomsRequest = Some 5" "req_bedrooms tooManyRoomsRequest = Some 3"
    and b': "\<not> discountRejected tooManyRoomsRequest"
    by (simp_all add: tooManyRoomsRequest_def discountRejected_def emptyPatch_fields)
  from minRooms_validation[OF a, of blankVilla "Some villa0"] a'
    minRooms_validation[OF b, of blankVilla "Some villa0"] b'
  show ?thesis by simp
qed

text \<open>
  Claim C5 as stated fails: this request carries 1 minimum room for 3 bedrooms, the
  stored villa has 3 bedrooms, and yet it is answered with 400 and the minimum rooms are
  not stored, because its discounted price is not below its price.
\<close>

theorem minRooms_not_stored_counterexample:
  "req_minRooms roomsAndDiscountRequest = Some 1
   \<and> req_bedrooms roomsAndDiscountRequest = Some 3
   \<and> bedrooms villa0 = Some 3
   \<and> patchVilla blankVilla (Some villa0) roomsAndDiscountRequest =
       (Resp 400 (JMsg ''Discounted price must be less than regular price''), Some villa0)
   \<and> minRooms villa0 \<noteq> Some 1"
  by (simp add: roomsAndDiscountRequest_def emptyPatch_fields villa0_fields patchVilla_def Let_def
        updateDiscountedPrice_def updateMinRooms_def)

text \<open>
  The minimum rooms are compared with the bedrooms of the request body only. A request
  without bedrooms is not checked against the stored bedrooms.
\<close>

lemma minRooms_unchecked_without_bedrooms:
  "\<exists>villa. patchVilla blankVilla (Some villa0) onlyMinRoomsRequest = (Resp 200 (JVilla villa), Some villa)
     \<and> minRooms villa = Some 10 \<and> bedrooms villa = Some 3"
proof -
  have "\<not> discountRejected onlyMinRoomsRequest" "\<not> minRoomsRejected onlyMinRoomsRequest"
    by (simp_all add: onlyMinRoomsRequest_def discountRejected_def minRoomsRejected_def emptyPatch_fields)
  from patchVilla_accepted[OF this, of blankVilla "Some villa0"]
  show ?thesis by (auto simp add: onlyMinRoomsRequest_def emptyPatch_fields findOrNew_def villa0_fields)
qed

subsection \<open>Bank details\<close>

text \<open>PATCH /bank-details stores only what passed its validation.\<close>

lemma patchBankDetails_validates:
  "patchBankDetails nv store body = (r, store') \<Longrightarrow>
     (case body of
        NotAnArray \<Rightarrow> r = Resp 400 (JMsg ''Bank details must be an array'') \<and> store' = store
      | BankArray es \<Rightarrow>
          if list_all entry_ok es
          then resp_status r = 200
             \<and> map_option bankDetails store' = Some (BankArray (map formatEntry es))
          else r = Resp 400 (JMsg
                 ''Each bank detail must include bank name, account number, and account name'')
             \<and> store' = store)"
  by (cases body) (auto simp: patchBankDetails_def Let_def)

lemma patchVilla_bankDetails:
  "\<not> discountRejected req \<Longrightarrow> \<not> minRoomsRejected req \<Longrightarrow> req_bankDetails req = Some bd \<Longrightarrow>
   \<exists>villa. patchVilla nv store req = (Resp 200 (JVilla villa), Some villa) \<and> bankDetails villa = bd"
  by (cases "req_discountedPrice req"; cases "req_minRooms req")
     (simp_all add: patchVilla_def Let_def updateDiscountedPrice_def updateMinRooms_def
        discountRejected_def minRoomsRejected_def updateRest_def)

text \<open>
  The validation of PATCH /bank-details runs before the trimming: a bank name of white
  space passes it and is stored as the empty string.
\<close>

lemma patchBankDetails_blank_name:
  "entry_ok blankNameEntry
   \<and> formatEntry blankNameEntry =
       \<lparr> bank = Some [], accountNumber = Some ''123-456'', accountName = Some ''Ann Lee'' \<rparr>
   \<and> \<not> entry_ok (formatEntry blankNameEntry)"
  by (simp add: blankNameEntry_def entry_ok_def formatEntry_def trim_def replace_spaces_def
        is_space_def)

text \<open>
  Claim C6. The claim asks that every update of the bank details with malformed input is
  answered with 400. PATCH /bank-details does so. PATCH / does not: the entry below has
  no bank name, PATCH /bank-details refuses it, and PATCH / stores it and answers 200; so
  it does with a value that is not an array.
\<close>

theorem patchVilla_stores_malformed_bankDetails:
  "\<not> entry_ok noNameEntry
   \<and> patchBankDetails blankVilla (Some villa0) (BankArray [noNameEntry]) =
       (Resp 400 (JMsg
          ''Each bank detail must include bank name, account number, and account name''), Some villa0)
   \<and> (\<exists>villa. patchVilla blankVilla (Some villa0) bankRequest = (Resp 200 (JVilla villa), Some villa)
          \<and> bankDetails villa = BankArray [noNameEntry])
   \<and> (\<exists>villa. patchVilla blankVilla (Some villa0) (emptyPatch \<lparr> req_bankDetails := Some NotAnArray \<rparr>)
            = (Resp 200 (JVilla villa), Some villa)
          \<and> bankDetails villa = NotAnArray)"
proof -
  have 1: "\<not> entry_ok noNameEntry" by (simp add: entry_ok_def noNameEntry_def)
  then have 2: "patchBankDetails blankVilla (Some villa0) (BankArray [noNameEntry]) =
       (Resp 400 (JMsg
          ''Each bank detail must include bank name, account number, and account name''), Some villa0)"
    by (simp add: patchBankDetails_def)
  have "\<not> discountRejected bankRequest" "\<not> minRoomsRejected bankRequest"
    "req_bankDetails bankRequest = Some (BankArray [noNameEntry])"
    by (simp_all add: bankRequest_def discountRejected_def minRoomsRejected_def emptyPatch_fields)
  note 3 = patchVilla_bankDetails[OF this, of blankVilla "Some villa0"]
  have "\<not> discountRejected (emptyPatch \<lparr> req_bankDetails := Some NotAnArray \<rparr>)"
    "\<not> minRoomsRejected (emptyPatch \<lparr> req_bankDetails := Some NotAnArray \<rparr>)"
    "req_bankDetails (emptyPatch \<lparr> req_bankDetails := Some NotAnArray \<rparr>) = Some NotAnArray"
    by (simp_all add: discountRejected_def minRoomsRejected_def emptyPatch_fields)
  note 4 = patchVilla_bankDetails[OF this, of blankVilla "Some villa0"]
  from 1 2 3 4 show ?thesis by blast
qed

subsection \<open>Slide images\<close>

lemma splice1_length: "i < length xs \<Longrightarrow> length (splice1 xs i) = length xs - 1"
  by (simp add: splice1_def)

lemma splice1_nth:
  assumes "i < length xs" and "j < length xs - 1"
  shows "splice1 xs i ! j = xs ! (if j < i then j else Suc j)"
proof (cases "j < i")
  case True
  with assms show ?thesis by (simp add: splice1_def nth_append)
next
  case False
  with assms show ?thesis by (simp add: splice1_def nth_append min_def)
qed

text \<open>
  Claim C8. Let the villa have \<open>n\<close> slide images. Deleting at an index \<open>i < n\<close> where a
  slide is stored (a non-empty URL) answers 200 and leaves a sequence of length \<open>n - 1\<close>
  whose element \<open>j\<close> is the old element \<open>j\<close> when \<open>j < i\<close> and the old element \<open>j + 1\<close>
  otherwise: the remaining slides in their order; no other field of the villa changes.
  Deleting at an index with no slide (out of range, or an empty entry), or when there is
  no villa, answers 404 and changes nothing.
\<close>

theorem deleteSlide_removes_one:
  "(i < length (slideImages villa) \<and> truthy (slideImages villa ! i) \<longrightarrow>
      (\<exists>ys. deleteSlide (Some villa) i =
            (Resp 200 (JMsg ''Slide image deleted successfully''),
             Some (villa \<lparr> slideImages := ys \<rparr>))
         \<and> length ys = length (slideImages villa) - 1
         \<and> (\<forall>j < length ys. ys ! j = slideImages villa ! (if j < i then j else Suc j))))
   \<and> (\<not> (i < length (slideImages villa) \<and> truthy (slideImages villa ! i)) \<longrightarrow>
        deleteSlide (Some villa) i = (Resp 404 (JMsg ''Slide image not found''), Some villa))
   \<and> deleteSlide None i = (Resp 404 (JMsg ''Slide image not found''), None)"
proof (intro conjI impI)
  assume a: "i < length (slideImages villa) \<and> truthy (slideImages villa ! i)"
  then have "deleteSlide (Some villa) i =
      (Resp 200 (JMsg ''Slide image deleted successfully''),
       Some (villa \<lparr> slideImages := splice1 (slideImages villa) i \<rparr>))"
    by (simp add: deleteSlide_def slide_at_def)
  moreover from a have "length (splice1 (slideImages villa) i) = length (slideImages villa) - 1"
    by (simp add: splice1_length)
  moreover from a have "\<forall>j < length (splice1 (slideImages villa) i).
      splice1 (slideImages villa) i ! j = slideImages villa ! (if j < i then j else Suc j)"
    using splice1_nth[of i "slideImages villa"] by (simp add: splice1_length)
  ultimately show "\<exists>ys. deleteSlide (Some villa) i =
            (Resp 200 (JMsg ''Slide image deleted successfully''),
             Some (villa \<lparr> slideImages := ys \<rparr>))
         \<and> length ys = length (slideImages villa) - 1
         \<and> (\<forall>j < length ys. ys ! j = slideImages villa ! (if j < i then j else Suc j))"
    by blast
next
  assume "\<not> (i < length (slideImages villa) \<and> truthy (slideImages villa ! i))"
  then have "\<not> truthy (slide_at (slideImages villa) i)"
    by (auto simp: slide_at_def)
  then show "deleteSlide (Some villa) i = (Resp 404 (JMsg ''Slide image not found''), Some villa)"
    by (simp add: deleteSlide_def)
next
  show "deleteSlide None i = (Resp 404 (JMsg ''Slide image not found''), None)"
    by (simp add: deleteSlide_def)
qed

theorem deleteSlide_removes_one_witness:
  "deleteSlide (Some fiveSlides) 2 =
     (Resp 200 (JMsg ''Slide image deleted successfully''),
      Some (fiveSlides \<lparr> slideImages := [Some ''a'', Some ''b'', Some ''d'', Some ''e''] \<rparr>))
   \<and> deleteSlide (Some fiveSlides) 5 = (Resp 404 (JMsg ''Slide image not found''), Some fiveSlides)"
proof -
  have xs: "slideImages fiveSlides = [Some ''a'', Some ''b'', Some ''c'', Some ''d'', Some ''e'']"
    by (simp add: fiveSlides_def)
  note t = deleteSlide_removes_one[of 2 fiveSlides] and u = deleteSlide_removes_one[of 5 fiveSlides]
  from t obtain ys where d: "deleteSlide (Some fiveSlides) 2 =
        (Resp 200 (JMsg ''Slide image deleted successfully''), Some (fiveSlides \<lparr> slideImages := ys \<rparr>))"
    and l: "length ys = 4"
    and n: "\<forall>j<length ys. ys ! j = slideImages fiveSlides ! (if j < 2 then j else Suc j)"
    by (auto simp: xs)
  from n l have "ys ! 0 = Some ''a''" "ys ! 1 = Some ''b''" "ys ! 2 = Some ''d''" "ys ! 3 = Some ''e''"
    by (simp_all add: xs)
  with l have "ys = [Some ''a'', Some ''b'', Some ''d'', Some ''e'']"
    by (intro nth_equalityI) (auto simp: less_Suc_eq numeral_eq_Suc)
  with d u show ?thesis by (simp add: xs)
qed

text \<open>
  Claim C10. When a villa exists and \<open>newOrder\<close> is an array of numbers, the reorder
  answers 200 and replaces the slide images by a sequence as long as \<open>newOrder\<close> whose
  element \<open>k\<close> is the old element at position \<open>newOrder[k]\<close>, and is undefined when that
  position is out of range. Nothing requires \<open>newOrder\<close> to be a permutation: a repeated
  index repeats a slide, an index out of range leaves a hole, and neither is an error.
\<close>

theorem reorderSlides_follows_newOrder:
  "\<exists>ys. reorderSlides (Some villa) (Some order) =
          (Resp 200 (JMsgVilla ''Slide images reordered successfully'' (villa \<lparr> slideImages := ys \<rparr>)),
           Some (villa \<lparr> slideImages := ys \<rparr>))
      \<and> length ys = length order
      \<and> (\<forall>k < length order.
            ys ! k = (if 0 \<le> order ! k \<and> order ! k < int (length (slideImages villa))
                      then slideImages villa ! nat (order ! k) else None))"
proof -
  let ?ys = "map (\<lambda>index. slide_at_int (slideImages villa) index) order"
  have "reorderSlides (Some villa) (Some order) =
          (Resp 200 (JMsgVilla ''Slide images reordered successfully'' (villa \<lparr> slideImages := ?ys \<rparr>)),
           Some (villa \<lparr> slideImages := ?ys \<rparr>))"
    by (simp add: reorderSlides_def Let_def)
  moreover have "length ?ys = length order" by simp
  moreover have "\<forall>k < length order.
            ?ys ! k = (if 0 \<le> order ! k \<and> order ! k < int (length (slideImages villa))
                      then slideImages villa ! nat (order ! k) else None)"
    by (auto simp: slide_at_int_def slide_at_def)
  ultimately show ?thesis by blast
qed

theorem reorderSlides_follows_newOrder_witness:
  "reorderSlides (Some threeSlides) (Some [2, 2, 7, -1]) =
     (Resp 200 (JMsgVilla ''Slide images reordered successfully''
        (threeSlides \<lparr> slideImages := [Some ''c'', Some ''c'', None, None] \<rparr>)),
      Some (threeSlides \<lparr> slideImages := [Some ''c'', Some ''c'', None, None] \<rparr>))"
proof -
  have xs: "slideImages threeSlides = [Some ''a'', Some ''b'', Some ''c'']"
    by (simp add: threeSlides_def)
  let ?order = "[2, 2, 7, -1] :: int list"
  from reorderSlides_follows_newOrder[of threeSlides ?order]
  obtain ys where d: "reorderSlides (Some threeSlides) (Some ?order) =
          (Resp 200 (JMsgVilla ''Slide images reordered successfully'' (threeSlides \<lparr> slideImages := ys \<rparr>)),
           Some (threeSlides \<lparr> slideImages := ys \<rparr>))"
    and l: "length ys = length ?order"
    and n: "\<forall>k < length ?order.
              ys ! k = (if 0 \<le> ?order ! k \<and> ?order ! k < int (length (slideImages threeSlides))
                        then slideImages threeSlides ! nat (?order ! k) else None)"
    by blast
  from n have "ys ! 0 = Some ''c''" "ys ! 1 = Some ''c''" "ys ! 2 = None" "ys ! 3 = None"
    by (simp_all add: xs)
  with l have "ys = [Some ''c'', Some ''c'', None, None]"
    by (intro nth_equalityI) (auto simp: less_Suc_eq numeral_eq_Suc)
  with d show ?thesis by simp
qed

section \<open>Properties of the booking lifecycle\<close>

subsection \<open>The store\<close>

lemma at_js_update_same: "i < length xs \<Longrightarrow> at_js (xs[i := b]) i = Some b"
  by (simp add: at_js_def)

lemma at_js_update_other: "i \<noteq> j \<Longrightarrow> at_js (xs[i := b]) j = at_js xs j"
  by (simp add: at_js_def)

lemma at_js_append: "at_js xs i = Some b \<Longrightarrow> at_js (xs @ ys) i = Some b"
  by (auto simp: at_js_def nth_append split: if_splits)

lemma at_js_Some_iff: "at_js xs i = Some b \<longleftrightarrow> i < length xs \<and> xs ! i = b"
  by (auto simp: at_js_def)

subsection \<open>Transitions\<close>




lemma transition_keeps:
  "transition now op b = Inr b' \<Longrightarrow> bookingDetails b' = bookingDetails b \<and> expiresAt b' = expiresAt b"
proof (cases op)
  case (SelectPaymentMethod m)
  then show "transition now op b = Inr b' \<Longrightarrow> ?thesis"
    by (cases "terminal (status b)") (auto simp: selectPaymentMethod_def)
next
  case (SubmitPaymentEvidence u)
  then show "transition now op b = Inr b' \<Longrightarrow> ?thesis"
    by (cases "now < expiresAt b \<and> status b = PendingPayment") (auto simp: submitPaymentEvidence_def)
next
  case GetBooking
  then show "transition now op b = Inr b' \<Longrightarrow> ?thesis"
    by (cases "status b = PendingPayment \<and> expiresAt b \<le> now") (auto simp: expireIfDue_def)
next
  case ConfirmBooking
  then show "transition now op b = Inr b' \<Longrightarrow> ?thesis"
    by (cases "status b = Pending") (auto simp: confirmBooking_def)
next
  case CancelBooking
  then show "transition now op b = Inr b' \<Longrightarrow> ?thesis"
    by (cases "terminal (status b)") (auto simp: cancelBooking_def)
qed

text \<open>A property of one booking that every accepted transition keeps is kept by the store.\<close>

lemma perform_invariant:
  assumes inv: "\<And>now op b b'. P b \<Longrightarrow> transition now op b = Inr b' \<Longrightarrow> P b'"
    and b: "at_js store bid = Some b" "P b"
  shows "\<exists>b'. at_js (snd (perform now j op store)) bid = Some b' \<and> P b'"
proof (cases "at_js store j")
  case None
  with b show ?thesis by (simp add: perform_def)
next
  case (Some c)
  show ?thesis
  proof (cases "transition now op c")
    case (Inl e)
    with Some b show ?thesis by (simp add: perform_def)
  next
    case (Inr c')
    show ?thesis
    proof (cases "j = bid")
      case True
      with Some b have "c = b" by simp
      with Inr inv b have "P c'" by blast
      moreover from True b have "at_js (store[j := c']) bid = Some c'"
        by (simp add: at_js_update_same at_js_Some_iff)
      ultimately show ?thesis using Some Inr by (simp add: perform_def)
    next
      case False
      with Some Inr b show ?thesis by (simp add: perform_def at_js_update_other)
    qed
  qed
qed

lemma run_invariant:
  assumes inv: "\<And>now op b b'. P b \<Longrightarrow> transition now op b = Inr b' \<Longrightarrow> P b'"
  shows "at_js store bid = Some b \<Longrightarrow> P b \<Longrightarrow> \<exists>b'. at_js (run es store) bid = Some b' \<and> P b'"
proof (induction es arbitrary: store b)
  case Nil
  then show ?case by simp
next
  case (Cons e es)
  obtain now ev where e: "e = (now, ev)" by (cases e)
  show ?case
  proof (cases ev)
    case (Create window customer ci co g price discount)
    from Cons.prems(1) have "at_js (snd (createBooking now window customer ci co g price discount store)) bid = Some b"
      by (simp add: createBooking_def at_js_append)
    from Cons.IH[OF this Cons.prems(2)] e Create show ?thesis by simp
  next
    case (Request j op)
    have "\<exists>b'. at_js (snd (perform now j op store)) bid = Some b' \<and> P b'"
    proof (rule perform_invariant[where P = P])
      show "\<And>now op b b'. P b \<Longrightarrow> transition now op b = Inr b' \<Longrightarrow> P b'" by (rule inv)
      show "at_js store bid = Some b" by (rule Cons.prems)
      show "P b" by (rule Cons.prems)
    qed
    then obtain b' where "at_js (snd (perform now j op store)) bid = Some b'" "P b'" by blast
    from Cons.IH[OF this] e Request show ?thesis by simp
  qed
qed





lemma run_totalPrice:
  "at_js store bid = Some b \<Longrightarrow>
   \<exists>b'. at_js (run es store) bid = Some b' \<and> bookingDetails b' = bookingDetails b"
  by (rule run_invariant[where P = "\<lambda>c. bookingDetails c = bookingDetails b"])
     (auto dest: transition_keeps)





text \<open>The page's method selection is the request of the server model.\<close>

lemma handlePaymentMethodSelect_run:
  "handlePaymentMethodSelect now bid m store =
     run [(now, Request bid (SelectPaymentMethod m))] store"
  by (simp add: handlePaymentMethodSelect_def)

text \<open>
  A page that loads a booking with a slip on record marks the payment confirmed, and its
  confirmation handler then returns at once.
\<close>

lemma fetchBooking_locks_page:
  assumes "at_js store bid = Some b" and "evidenceRecorded s b" and "s \<noteq> []"
  shows "fetchBooking now bid pg store =
           (pg \<lparr> shownBooking := Some b, slipUrlState := s, isPaymentConfirmed := True,
                 isLoading := False \<rparr>, store)"
    and "handleConfirmPayment upload now' bid (fst (fetchBooking now bid pg store)) store
           = (fst (fetchBooking now bid pg store), store)"
proof -
  from assms(2) have e: "expireIfDue now b = b"
    by (auto simp: evidenceRecorded_def expireIfDue_def)
  from assms(1) have "store[bid := b] = store"
    by (auto simp: at_js_Some_iff)
  with assms e show f: "fetchBooking now bid pg store =
           (pg \<lparr> shownBooking := Some b, slipUrlState := s, isPaymentConfirmed := True,
                 isLoading := False \<rparr>, store)"
    by (simp add: fetchBooking_def perform_def evidenceRecorded_def)
  show "handleConfirmPayment upload now' bid (fst (fetchBooking now bid pg store)) store
           = (fst (fetchBooking now bid pg store), store)"
    by (cases "selectedFile pg") (simp_all add: f handleConfirmPayment_def)
qed




subsection \<open>One evidence submission per booking\<close>




subsection \<open>Expiry\<close>




subsection \<open>The total price\<close>

text \<open>
  Claim C3. A booking is created with a total price of nights times the effective price
  of a night (the price of a night minus the discount), and after any sequence of later
  requests (method selection, evidence submission, reads with their expiry check,
  confirmation, cancellation, creation of other bookings) its total price is still that.
\<close>

theorem totalPrice_fixed_at_creation:
  assumes "createBooking now window customer ci co g price discount store = (bid, store1)"
  shows "\<exists>b. at_js (run es store1) bid = Some b
           \<and> totalPrice (bookingDetails b) = (co - ci) * effectivePricePerNight price discount"
proof -
  from assms have "at_js store1 bid = Some (newBooking now window customer ci co g price discount)"
    by (auto simp: createBooking_def at_js_def)
  from run_totalPrice[OF this, of es] show ?thesis by (auto simp: newBooking_def)
qed

theorem totalPrice_fixed_at_creation_witness:
  "\<exists>b. at_js (run [(10, Request 0 (SelectPaymentMethod bank_transfer)),
                    (20, Request 0 (SubmitPaymentEvidence ''/slips/1.png'')),
                    (30, Request 0 ConfirmBooking)]
                (snd (createBooking 0 1000 guest 0 3 4 299 0 []))) 0 = Some b
       \<and> totalPrice (bookingDetails b) = 897"
proof -
  have "createBooking 0 1000 guest 0 3 4 299 0 [] = (0, snd (createBooking 0 1000 guest 0 3 4 299 0 []))"
    by (simp add: createBooking_def)
  from totalPrice_fixed_at_creation[OF this,
      of "[(10, Request 0 (SelectPaymentMethod bank_transfer)),
           (20, Request 0 (SubmitPaymentEvidence ''/slips/1.png'')),
           (30, Request 0 ConfirmBooking)]"]
  show ?thesis
    by (simp add: effectivePricePerNight_def del: run.simps)
qed

end
